theory Spec2Isabelle
  imports Main "HOL-Library.Sublist" "HOL-Library.AList"
begin

section \<open>Python values used by the gear\<close>

text \<open>
  Exceptions are values. Only the exception classes that the three source files can
  meet are named; an exception raised inside an external collaborator (registration,
  model construction, inference, the layout query) is \<open>CollaboratorError\<close> with its text.
\<close>

datatype exn =
    TypeError string
  | FileNotFoundError string
  | ValueError string
  | IndexError string
  | KeyError string
  | UnboundLocalError string
  | AttributeError string
  | OSError string
  | CollaboratorError string

fun exn_str :: "exn \<Rightarrow> string" where
  "exn_str (TypeError m) = m"
| "exn_str (FileNotFoundError m) = m"
| "exn_str (ValueError m) = m"
| "exn_str (IndexError m) = m"
| "exn_str (KeyError m) = m"
| "exn_str (UnboundLocalError m) = m"
| "exn_str (AttributeError m) = m"
| "exn_str (OSError m) = m"
| "exn_str (CollaboratorError m) = m"

subsection \<open>Strings\<close>

text \<open>
  A Python \<open>str\<close> is modelled as a \<open>string\<close> whose characters are the code points
  below 256. \<open>is_space\<close> is \<open>str.isspace\<close> on that range, \<open>lower_char\<close> is
  \<open>str.lower\<close> on it (ASCII and Latin-1 capitals).
\<close>

definition is_space :: "char \<Rightarrow> bool" where
  "is_space c = (let n = of_char c :: nat in
     (9 \<le> n \<and> n \<le> 13) \<or> (28 \<le> n \<and> n \<le> 32) \<or> n = 133 \<or> n = 160)"

definition lower_char :: "char \<Rightarrow> char" where
  "lower_char c = (let n = of_char c :: nat in
     if (65 \<le> n \<and> n \<le> 90) \<or> (192 \<le> n \<and> n \<le> 222 \<and> n \<noteq> 215)
     then char_of (n + 32) else c)"

definition lower :: "string \<Rightarrow> string" where
  "lower s = map lower_char s"

text \<open>\<open>s.split()\<close>: the maximal runs of non-whitespace characters, in order.\<close>

fun split_ws :: "string \<Rightarrow> string \<Rightarrow> string list" where
  "split_ws tok [] = (if tok = [] then [] else [tok])"
| "split_ws tok (c # cs) =
     (if is_space c then (if tok = [] then split_ws [] cs else tok # split_ws [] cs)
      else split_ws (tok @ [c]) cs)"

definition py_split :: "string \<Rightarrow> string list" where
  "py_split s = split_ws [] s"

text \<open>
  \<open>s.replace(old, new)\<close>: every non-overlapping occurrence of \<open>old\<close>, scanning from
  the left, is replaced. With an empty \<open>old\<close>, \<open>new\<close> is put before every character and
  at the end.
\<close>

function py_replace :: "string \<Rightarrow> string \<Rightarrow> string \<Rightarrow> string" where
  "py_replace old new s =
     (if old = [] then new @ concat (map (\<lambda>c. c # new) s)
      else if s = [] then []
      else if prefix old s then new @ py_replace old new (drop (length old) s)
      else hd s # py_replace old new (tl s))"
  by pat_completeness auto
termination
  by (relation "measure (\<lambda>(old, new, s). length s)") auto

declare py_replace.simps [simp del]

text \<open>\<open>needle in hay\<close> on strings is \<open>sublist needle hay\<close> (a contiguous occurrence).\<close>

text \<open>\<open>os.path.join(a, b)\<close> on POSIX, for two components.\<close>

definition os_path_join :: "string \<Rightarrow> string \<Rightarrow> string" where
  "os_path_join a b =
     (if prefix ''/'' b then b
      else if a = [] \<or> suffix ''/'' a then a @ b
      else a @ ''/'' @ b)"

text \<open>\<open>os.path.basename(p)\<close>: what follows the last slash.\<close>

definition basename :: "string \<Rightarrow> string" where
  "basename p = rev (takeWhile (\<lambda>c. c \<noteq> CHR ''/'') (rev p))"

definition dirname :: "string \<Rightarrow> string" where
  "dirname p = rev (drop 1 (dropWhile (\<lambda>c. c \<noteq> CHR ''/'') (rev p)))"

text \<open>
  Matching of one path component against a glob pattern made of literal characters and
  \<open>*\<close> (the only pattern the source uses is \<open>*.nii.gz\<close>): \<open>*\<close> stands for any run of
  characters, the empty one included.
\<close>

fun fnmatch :: "string \<Rightarrow> string \<Rightarrow> bool" where
  "fnmatch [] n = (n = [])"
| "fnmatch (p # ps) n =
     (if p = CHR ''*'' then list_ex (\<lambda>k. fnmatch ps (drop k n)) [0..<Suc (length n)]
      else (case n of [] \<Rightarrow> False | c # cs \<Rightarrow> c = p \<and> fnmatch ps cs))"

section \<open>The world the gear runs in\<close>

text \<open>
  The filesystem is an association list from paths to contents (lines), a list of
  directories, and the list \<open>unwritable\<close> of the paths that cannot be opened for writing
  (no permission, no parent directory, no space); the root logger is the list of its handlers, each with the buffer it
  writes to; \<open>download_calls\<close> records every call of a file's download operation;
  \<open>analyses\<close> are the analysis records created on the platform, with their uploads.
  Standard output (\<open>print\<close>) is not modelled.
\<close>

record analysis =
  an_session :: string
  an_label :: string
  an_status :: string
  an_note :: string
  an_uploads :: "string list"

record world =
  files :: "(string \<times> string list) list"
  dirs :: "string list"
  unwritable :: "string list"
  root_handlers :: "(nat \<times> string list) list"
  next_handler :: nat
  download_calls :: "string list"
  analyses :: "analysis list"

definition exists :: "string \<Rightarrow> world \<Rightarrow> bool" where
  "exists p w = (p \<in> set (map fst (files w)) \<or> p \<in> set (dirs w))"

definition makedirs :: "string \<Rightarrow> world \<Rightarrow> world" where
  "makedirs d w = w\<lparr>dirs := List.insert d (dirs w)\<rparr>"

definition write_file :: "string \<Rightarrow> string list \<Rightarrow> world \<Rightarrow> world" where
  "write_file p content w = w\<lparr>files := AList.update p content (files w)\<rparr>"

text \<open>
  \<open>open(p, 'w')\<close> raises OSError when \<open>p\<close> is a directory or cannot be opened for
  writing.
\<close>

definition open_w :: "string \<Rightarrow> world \<Rightarrow> exn + unit" where
  "open_w p w =
     (if p \<in> set (dirs w) \<or> p \<in> set (unwritable w) then Inl (OSError p) else Inr ())"

text \<open>The entries of a directory, files and subdirectories, by name.\<close>

definition listdir :: "string \<Rightarrow> world \<Rightarrow> string list" where
  "listdir d w = map basename (filter (\<lambda>p. dirname p = d) (map fst (files w) @ dirs w))"

section \<open>utils/parser.py\<close>

subsection \<open>Containers of the platform\<close>

text \<open>
  A file entry has a name, a declared type (\<open>file['type']\<close>, possibly \<open>None\<close>) and a
  download operation; \<open>fetch\<close> is what that operation does when called: the content it
  writes at the target path, or the exception it raises.
\<close>

record file_entry =
  file_name :: string
  file_type :: "string option"
  fetch :: "exn + string list"

record session =
  ses_label :: string
  ses_id :: string
  acquisitions :: "file_entry list list"

record subject =
  sub_label :: string
  sessions :: "session list"

subsection \<open>Labels\<close>

text \<open>
  \<open>ses.label.split()[0].replace("-", '').replace("_", "")\<close>. A label with no
  non-whitespace character has no first token: \<open>[0]\<close> raises IndexError.
\<close>

definition make_session_label :: "session \<Rightarrow> exn + string" where
  "make_session_label ses =
     (case py_split (ses_label ses) of
        [] \<Rightarrow> Inl (IndexError ''list index out of range'')
      | tok # _ \<Rightarrow> Inr (py_replace ''_'' [] (py_replace ''-'' [] tok)))"

definition make_subject_label :: "subject \<Rightarrow> string" where
  "make_subject_label sub =
     py_replace ''_'' [] (py_replace '' '' [] (py_replace ''-'' [] (sub_label sub)))"

definition make_project_label :: "string \<Rightarrow> string" where
  "make_project_label proj = py_replace '' '' [] (py_replace ''-'' ''_'' proj)"

subsection \<open>download_file\<close>

text \<open>The inclusion filter: the value of \<open>do_download\<close> after the nested \<open>if\<close>s.\<close>

definition do_download :: "file_entry \<Rightarrow> bool" where
  "do_download file =
     (let file_name_lower = lower (file_name file) in
      file_type file \<in> set [Some ''source code'', Some ''nifti''] \<and>
      (sublist ''T2'' (file_name file) \<and>
         (sublist ''axi'' file_name_lower \<or> sublist ''AXI'' (file_name file))) \<and>
      \<not> list_ex (\<lambda>excluded. sublist excluded file_name_lower)
           [''mapping'', ''align'', ''brain''])"

text \<open>
  \<open>file.download(fpath)\<close> inside the \<open>try\<close>: the call is recorded; when it returns, the
  file is at \<open>fpath\<close>; when it raises, the handler prints and nothing else changes.
\<close>

definition file_download :: "file_entry \<Rightarrow> string \<Rightarrow> world \<Rightarrow> world" where
  "file_download file fpath w =
     (let w1 = w\<lparr>download_calls := download_calls w @ [fpath]\<rparr> in
      case fetch file of
        Inl e \<Rightarrow> w1
      | Inr content \<Rightarrow> write_file fpath content w1)"

definition download_file :: "file_entry \<Rightarrow> string \<Rightarrow> bool \<Rightarrow> world \<Rightarrow> string \<times> world" where
  "download_file file my_dir dry_run w =
     (if do_download file then
        (let download_dir = my_dir;
             w1 = makedirs download_dir w
         in if dry_run then (file_name file, w1)
            else (let fpath = os_path_join download_dir (file_name file)
                  in if \<not> exists fpath w1 then (file_name file, file_download file fpath w1)
                     else (file_name file, w1)))
      else (file_name file, w))"

subsection \<open>download_session and download_subject\<close>

definition download_session ::
  "session \<Rightarrow> string \<Rightarrow> bool \<Rightarrow> world \<Rightarrow> (exn + string \<times> string \<times> string) \<times> world" where
  "download_session ses_container sub_dir dry_run w =
     (case make_session_label ses_container of
        Inl e \<Rightarrow> (Inl e, w)
      | Inr label \<Rightarrow>
          (let ses_dir = os_path_join sub_dir label;
               w1 = fold (\<lambda>acq. fold (\<lambda>file v. snd (download_file file ses_dir dry_run v)) acq)
                      (acquisitions ses_container) w
           in (Inr (label, ses_dir, ses_id ses_container), w1)))"

text \<open>\<open>string.ascii_lowercase\<close>.\<close>

definition alc :: string where
  "alc = ''abcdefghijklmnopqrstuvwxyz''"

text \<open>
  The deduplication loop of download_subject,
  \<^verbatim>\<open>while ses_label in sessions_out: ses_label = ses_label0 + alc[i]; i += 1\<close>,
  from the state (\<open>ses_label\<close>, \<open>i\<close>). \<open>alc[26]\<close> raises IndexError. \<open>sessions_out\<close> is
  the dictionary as an association list in insertion order.
\<close>

type_synonym sessions_out = "(string \<times> string \<times> string) list"

function probe :: "string \<Rightarrow> sessions_out \<Rightarrow> string \<Rightarrow> nat \<Rightarrow> exn + string" where
  "probe ses_label0 sessions_out label i =
     (if label \<in> set (map fst sessions_out) then
        (if i < length alc then probe ses_label0 sessions_out (ses_label0 @ [alc ! i]) (i + 1)
         else Inl (IndexError ''string index out of range''))
      else Inr label)"
  by pat_completeness auto
termination
  by (relation "measure (\<lambda>(l0, out, l, i). length alc - i)") auto

declare probe.simps [simp del]

text \<open>The body of \<open>for ses in sub_container.sessions.iter()\<close>, over the remaining sessions.\<close>

fun download_sessions ::
  "session list \<Rightarrow> string \<Rightarrow> bool \<Rightarrow> sessions_out \<Rightarrow> world \<Rightarrow> (exn + sessions_out) \<times> world" where
  "download_sessions [] sub_dir dry_run sessions_out w = (Inr sessions_out, w)"
| "download_sessions (ses # rest) sub_dir dry_run sessions_out w =
     (case download_session ses sub_dir dry_run w of
        (Inl e, w1) \<Rightarrow> (Inl e, w1)
      | (Inr (ses_label0, ses_dir, sid), w1) \<Rightarrow>
          (case probe ses_label0 sessions_out ses_label0 0 of
             Inl e \<Rightarrow> (Inl e, w1)
           | Inr label \<Rightarrow>
               download_sessions rest sub_dir dry_run
                 (AList.update label (ses_dir, sid) sessions_out) w1))"

definition download_subject ::
  "subject \<Rightarrow> string \<Rightarrow> bool \<Rightarrow> world \<Rightarrow> (exn + string \<times> sessions_out) \<times> world" where
  "download_subject sub_container proj_dir dry_run w =
     (let sub = make_subject_label sub_container;
          sub_dir = os_path_join proj_dir sub
      in case download_sessions (sessions sub_container) sub_dir dry_run [] w of
           (Inl e, w1) \<Rightarrow> (Inl e, w1)
         | (Inr sessions_out, w1) \<Rightarrow> (Inr (sub, sessions_out), w1))"

section \<open>options/test_options.py\<close>

text \<open>
  \<open>in_dir.glob(pattern)\<close> for a pattern of one component: the entries of the directory
  whose name matches, in the order the directory lists them. Each result stands for the
  path \<open>in_dir / name\<close>, and its \<open>.name\<close> is the name.
\<close>

definition glob :: "string \<Rightarrow> string \<Rightarrow> world \<Rightarrow> string list" where
  "glob in_dir pattern w = filter (fnmatch pattern) (listdir in_dir w)"

definition get_gambas_basename :: "string \<Rightarrow> string \<Rightarrow> world \<Rightarrow> exn + string" where
  "get_gambas_basename in_dir which_model w =
     (let nii_files = glob in_dir ''*.nii.gz'' w in
      if nii_files = [] then Inl (FileNotFoundError ''No NIfTI files found in the anat directory.'')
      else
        (let base = hd nii_files;
             sfx = (if which_model = ''GAMBAS'' then ''_gambas.nii.gz'' else ''_ResCNN.nii.gz'')
         in if suffix ''.nii.gz'' base then Inr (py_replace ''.nii.gz'' sfx base)
            else Inl (ValueError ''Unsupported file type'')))"

text \<open>
  A call \<open>TestOptions(k1=v1, ..., kn=vn)\<close> is the list of its keyword arguments.
  \<open>__init__(self, which_model, config, sub, ses)\<close> has four parameters, none with a
  default: Python raises TypeError for a keyword that names no parameter and for a
  parameter that receives no argument.
\<close>

datatype pyval = Str string | Dict "(string \<times> string) list"

record test_options =
  to_which_model :: pyval
  to_config :: pyval
  to_sub :: pyval
  to_ses :: pyval

definition TestOptions_init :: "(string \<times> pyval) list \<Rightarrow> exn + test_options" where
  "TestOptions_init kwargs =
     (let params = [''which_model'', ''config'', ''sub'', ''ses''] in
      case filter (\<lambda>k. k \<notin> set params) (map fst kwargs) of
        k # _ \<Rightarrow> Inl (TypeError (''__init__() got an unexpected keyword argument '' @ k))
      | [] \<Rightarrow>
          (case (map_of kwargs ''which_model'', map_of kwargs ''config'',
                 map_of kwargs ''sub'', map_of kwargs ''ses'') of
             (Some m, Some c, Some sub, Some ses) \<Rightarrow>
               Inr \<lparr>to_which_model = m, to_config = c, to_sub = sub, to_ses = ses\<rparr>
           | _ \<Rightarrow> Inl (TypeError ''__init__() missing required positional argument'')))"

text \<open>
  The option values that fw_process_subject reads and TestOptions.initialize sets;
  \<open>opt_phase\<close> and \<open>opt_which_epoch\<close> are the two other defaults taken from the
  configuration.
\<close>

record opt =
  opt_image :: string
  opt_reference :: string
  opt_result_sr :: string
  opt_phase :: string
  opt_which_epoch :: string
  opt_stride_inplane :: int
  opt_stride_layer :: int

text \<open>\<open>f"{x}"\<close> for the values that occur.\<close>

fun py_str :: "pyval \<Rightarrow> string" where
  "py_str (Str s) = s"
| "py_str (Dict d) = ''{...}''"

text \<open>
  \<open>int(s)\<close> on a string: surrounding whitespace is dropped, a sign may come first,
  then decimal digits, where single underscores may stand between digits. Anything
  else raises ValueError. A number of the configuration is its decimal string.
\<close>

definition is_digit :: "char \<Rightarrow> bool" where
  "is_digit c = (let n = of_char c :: nat in 48 \<le> n \<and> n \<le> 57)"

fun int_body :: "string \<Rightarrow> bool" where
  "int_body [] = False"
| "int_body [c] = is_digit c"
| "int_body (c # d # r) =
     (is_digit c \<and> (if d = CHR ''_'' then int_body r else int_body (d # r)))"

definition digits_value :: "string \<Rightarrow> int" where
  "digits_value ds =
     foldl (\<lambda>a c. 10 * a + int (of_char c - 48)) 0 (filter is_digit ds)"

definition py_strip :: "string \<Rightarrow> string" where
  "py_strip s = rev (dropWhile is_space (rev (dropWhile is_space s)))"

definition py_int :: "string \<Rightarrow> exn + int" where
  "py_int s =
     (let t = py_strip s;
          neg = prefix ''-'' t;
          body = (if prefix ''-'' t \<or> prefix ''+'' t then tl t else t)
      in if int_body body then Inr (if neg then - digits_value body else digits_value body)
         else Inl (ValueError (''invalid literal for int() with base 10: '' @ s)))"

text \<open>\<open>d.get(key, default)\<close>.\<close>

definition dict_get :: "(string \<times> string) list \<Rightarrow> string \<Rightarrow> string \<Rightarrow> string" where
  "dict_get d k dflt = (case map_of d k of None \<Rightarrow> dflt | Some v \<Rightarrow> v)"

text \<open>
  TestOptions.initialize, in the order of its statements: the two directories,
  \<open>output_path.mkdir\<close>, get_gambas_basename, the first NIfTI file of the input
  directory, the reference, the result path, and the four values taken from the
  configuration, where \<open>int(...)\<close> raises ValueError on a value that is no number. The
  defaults gpu_ids, name and netG are read by no code modelled here.

  Modelled from the spec: BaseOptions.parse (options/base_options.py is not among the
  sources) is taken to return the defaults that initialize sets (\<open>Resolve model-specific
  options\<close>), so \<open>TestOptions_parse\<close> is \<open>TestOptions(...).parse()\<close> on a constructed object.
\<close>

definition TestOptions_parse :: "test_options \<Rightarrow> world \<Rightarrow> (exn + opt) \<times> world" where
  "TestOptions_parse self w =
     (let in_dir = ''/flywheel/v0/work/rawdata/sub-'' @ py_str (to_sub self) @ ''/ses-''
                     @ py_str (to_ses self) @ ''/anat'';
          output_path = ''/flywheel/v0/work/derivatives/sub-'' @ py_str (to_sub self) @ ''/ses-''
                     @ py_str (to_ses self) @ ''/anat'';
          w1 = makedirs output_path w
      in (case get_gambas_basename in_dir (py_str (to_which_model self)) w1 of
            Inl e \<Rightarrow> (Inl e, w1)
          | Inr output_label \<Rightarrow>
      (let input_files = glob in_dir ''*.nii.gz'' w1
       in if input_files = []
          then (Inl (FileNotFoundError ''No NIfTI image found in the input directory.''), w1)
          else
      (case to_config self of
            Str s \<Rightarrow> (Inl (AttributeError ''str object has no attribute get''), w1)
          | Dict config \<Rightarrow>
      (case py_int (dict_get config ''stride_inplane'' ''32'') of
            Inl e \<Rightarrow> (Inl e, w1)
          | Inr stride_inplane \<Rightarrow>
      (case py_int (dict_get config ''stride_layer'' ''32'') of
            Inl e \<Rightarrow> (Inl e, w1)
          | Inr stride_layer \<Rightarrow>
              (Inr \<lparr>opt_image = os_path_join in_dir (hd input_files),
                    opt_reference = ''/flywheel/v0/app/TemplateKhula.nii'',
                    opt_result_sr = os_path_join output_path output_label,
                    opt_phase = dict_get config ''phase'' ''test'',
                    opt_which_epoch = dict_get config ''which_epoch'' ''latest'',
                    opt_stride_inplane = stride_inplane,
                    opt_stride_layer = stride_layer\<rparr>, w1)))))))"

section \<open>run.py\<close>

subsection \<open>Logging\<close>

text \<open>
  \<open>logging.info\<close>, \<open>logging.warning\<close> and \<open>logging.error\<close> hand one record to every
  handler of the root logger; a handler appends the formatted record (level and
  message; the time stamp is left out) to its buffer.

  Modelled from the spec: \<open>gb._logprint\<close> (utils/bids.py is not among the sources) is
  taken to log its message (\<open>log and skip\<close>, \<open>record deletion outcomes\<close>).
\<close>

definition emit :: "string \<Rightarrow> string \<Rightarrow> world \<Rightarrow> world" where
  "emit level msg w =
     w\<lparr>root_handlers := map (\<lambda>(h, buf). (h, buf @ [level @ '' - '' @ msg])) (root_handlers w)\<rparr>"

definition logging_info :: "string \<Rightarrow> world \<Rightarrow> world" where
  "logging_info msg w = emit ''INFO'' msg w"

definition logging_warning :: "string \<Rightarrow> world \<Rightarrow> world" where
  "logging_warning msg w = emit ''WARNING'' msg w"

definition logging_error :: "string \<Rightarrow> world \<Rightarrow> world" where
  "logging_error msg w = emit ''ERROR'' msg w"

definition logprint :: "string \<Rightarrow> world \<Rightarrow> world" where
  "logprint msg w = logging_info msg w"

definition addHandler :: "nat \<Rightarrow> world \<Rightarrow> world" where
  "addHandler h w = w\<lparr>root_handlers := root_handlers w @ [(h, [])]\<rparr>"

definition removeHandler :: "nat \<Rightarrow> world \<Rightarrow> world" where
  "removeHandler h w = w\<lparr>root_handlers := filter (\<lambda>(h', buf). h' \<noteq> h) (root_handlers w)\<rparr>"

definition getvalue :: "nat \<Rightarrow> world \<Rightarrow> string list" where
  "getvalue h w = (case map_of (root_handlers w) h of Some buf \<Rightarrow> buf | None \<Rightarrow> [])"

subsection \<open>The collaborators\<close>

text \<open>
  The layout query, registration, model construction and inference are not among the
  sources: they are parameters, each returning its value or the exception it raises.
  Registration returns \<open>None\<close> for the null sentinel; inference returns a path, or a
  falsy value (\<open>None\<close> or the empty string). \<open>work_dir\<close> is \<open>gear_context.work_dir\<close>,
  \<open>now\<close> the formatted \<open>datetime.now()\<close>.
\<close>

record env =
  parse_input_files :: "string \<Rightarrow> string \<Rightarrow> string \<Rightarrow> exn + (string \<times> string list) list"
  Registration :: "string \<Rightarrow> string \<Rightarrow> string \<Rightarrow> string \<Rightarrow> exn + nat option"
  create_model :: "opt \<Rightarrow> exn + nat"
  model_setup :: "nat \<Rightarrow> opt \<Rightarrow> exn + unit"
  inference :: "nat \<Rightarrow> nat \<Rightarrow> opt \<Rightarrow> exn + string option"
  work_dir :: string
  now :: string

text \<open>
  The expression \<open>TestOptions(...).parse()\<close> of fw_process_subject, as a function of the
  keyword arguments of the call: fw_process_subject is first defined for any such
  function, then for the TestOptions of options/test_options.py.
\<close>

type_synonym options_ctor = "(string \<times> pyval) list \<Rightarrow> world \<Rightarrow> (exn + opt) \<times> world"

definition TestOptions_call :: options_ctor where
  "TestOptions_call kwargs w =
     (case TestOptions_init kwargs of
        Inl e \<Rightarrow> (Inl e, w)
      | Inr self \<Rightarrow> TestOptions_parse self w)"

definition truthy :: "string option \<Rightarrow> bool" where
  "truthy fname = (case fname of None \<Rightarrow> False | Some s \<Rightarrow> s \<noteq> [])"

text \<open>\<open>if fname: ... else: ...\<close>, which the loop body holds twice (lines 185 and 223).\<close>

definition record_fname :: "string option \<Rightarrow> string list \<times> world \<Rightarrow> string list \<times> world" where
  "record_fname fname st =
     (case st of (deriv_fnames, w) \<Rightarrow>
        if truthy fname
        then (deriv_fnames @ [the fname],
              logging_info (''Output file: '' @ the fname) (logging_info ''Inference completed'' w))
        else (deriv_fnames,
              logging_error ''No output file generated'' (logging_error ''Inference failed'' w)))"

text \<open>The handler of the inner \<open>try\<close>: log and go on with the next file.\<close>

definition file_error :: "string \<Rightarrow> string \<Rightarrow> string \<Rightarrow> exn \<Rightarrow> world \<Rightarrow> world" where
  "file_error f sub ses e w =
     logging_error (''Error processing file '' @ f @ '' for subject '' @ sub @ '' session '' @ ses
                    @ '': '' @ exn_str e) w"

text \<open>The keyword arguments of the call \<open>TestOptions(...)\<close> at line 164.\<close>

definition TestOptions_kwargs ::
  "string \<Rightarrow> (string \<times> string) list \<Rightarrow> string \<Rightarrow> string \<Rightarrow> string \<Rightarrow> (string \<times> pyval) list" where
  "TestOptions_kwargs which_model config sub ses f =
     [(''which_model'', Str which_model), (''config'', Dict config),
      (''sub'', Str sub), (''ses'', Str ses), (''image'', Str f)]"

text \<open>One iteration of \<open>for f in raw_fnames\<close>, on the state (deriv_fnames, world).\<close>

definition process_file ::
  "options_ctor \<Rightarrow> env \<Rightarrow> string \<Rightarrow> string \<Rightarrow> string \<Rightarrow> (string \<times> string) list \<Rightarrow> string
     \<Rightarrow> string list \<times> world \<Rightarrow> string list \<times> world" where
  "process_file ctor E sub ses which_model config f st =
     (case st of (deriv_fnames, w) \<Rightarrow>
      (let w1 = logging_info (''Setting up options for model '' @ which_model)
                  (logprint (''Input file: '' @ f) w)
       in (case ctor (TestOptions_kwargs which_model config sub ses f) w1 of
             (Inl e, w2) \<Rightarrow> (deriv_fnames, file_error f sub ses e w2)
           | (Inr opt, w2) \<Rightarrow>
      (let w3 = logging_info (''Registering images for '' @ sub @ ''-'' @ ses) w2
       in (case Registration E (opt_image opt) (opt_reference opt) sub ses of
             Inl e \<Rightarrow> (deriv_fnames, file_error f sub ses e w3)
           | Inr None \<Rightarrow>
               (deriv_fnames,
                logging_warning (''Registration failed for subject '' @ sub @ '' session '' @ ses
                                 @ ''. Skipping this iteration.'') w3)
           | Inr (Some input_image) \<Rightarrow>
      (let w4 = logging_info (''Creating model for '' @ sub @ ''-'' @ ses) w3
       in (case create_model E opt of
             Inl e \<Rightarrow> (deriv_fnames, file_error f sub ses e w4)
           | Inr model \<Rightarrow>
      (case model_setup E model opt of
             Inl e \<Rightarrow> (deriv_fnames, file_error f sub ses e w4)
           | Inr u \<Rightarrow>
      (let w5 = logging_info (''Running inference for '' @ sub @ ''-'' @ ses) w4
       in (case inference E model input_image opt of
             Inl e \<Rightarrow> (deriv_fnames, file_error f sub ses e w5)
           | Inr fname \<Rightarrow>
               record_fname fname (record_fname fname (deriv_fnames, w5))))))))))))"

text \<open>\<open>my_files[key]\<close> on the dictionary that parse_input_files returns.\<close>

definition getitem :: "(string \<times> string list) list \<Rightarrow> string \<Rightarrow> exn + string list" where
  "getitem d k = (case map_of d k of None \<Rightarrow> Inl (KeyError k) | Some v \<Rightarrow> Inr v)"

text \<open>
  The \<open>try\<close> block of fw_process_subject with its \<open>except Exception\<close> handler. The
  result holds the local variables raw_fnames and deriv_fnames, \<open>None\<close> while unbound:
  both are first assigned inside the block, after parse_input_files has returned.
  A candidate is given by its path (\<open>x.path\<close>).
\<close>

definition subject_error :: "string \<Rightarrow> string \<Rightarrow> exn \<Rightarrow> world \<Rightarrow> world" where
  "subject_error sub ses e w =
     logging_error (''Error processing subject '' @ sub @ '' session '' @ ses @ '': '' @ exn_str e) w"

definition try_block ::
  "options_ctor \<Rightarrow> env \<Rightarrow> string \<Rightarrow> string \<Rightarrow> string \<Rightarrow> string \<Rightarrow> (string \<times> string) list
     \<Rightarrow> world \<Rightarrow> string list option \<times> string list option \<times> world" where
  "try_block ctor E layout sub ses which_model config w =
     (let w1 = logging_info (''Processing subject '' @ sub @ '' session '' @ ses) w
      in (case parse_input_files E layout sub ses of
            Inl e \<Rightarrow> (None, None, subject_error sub ses e w1)
          | Inr my_files \<Rightarrow>
      (let w2 = logprint (''Starting for '' @ sub @ ''-'' @ ses) w1
       in (case getitem my_files ''axi'' of
            Inl e \<Rightarrow> (None, None, subject_error sub ses e w2)
          | Inr axi \<Rightarrow>
      (case getitem my_files ''sag'' of
            Inl e \<Rightarrow> (None, None, subject_error sub ses e w2)
          | Inr sag \<Rightarrow>
      (case getitem my_files ''cor'' of
            Inl e \<Rightarrow> (None, None, subject_error sub ses e w2)
          | Inr cor \<Rightarrow>
      (let all_t2 = axi @ sag @ cor;
           raw_fnames = all_t2
       in (case fold (process_file ctor E sub ses which_model config) raw_fnames ([], w2) of
             (deriv_fnames, w3) \<Rightarrow> (Some raw_fnames, Some deriv_fnames, w3)))))))))"

text \<open>
  fw_process_subject: attach the handler, run the \<open>try\<close> block, run the \<open>finally\<close> block
  (write the log file, detach the handler, append the log file to \<open>logs\<close>), then
  \<open>return raw_fnames, deriv_fnames, logs\<close>, which raises UnboundLocalError when a
  variable it reads was never assigned. When the log file cannot be opened, the
  \<open>finally\<close> block ends there with the OSError: the handler stays attached and the
  exception leaves the function.
\<close>

definition log_filename_of :: "env \<Rightarrow> string \<Rightarrow> string \<Rightarrow> string" where
  "log_filename_of E sub ses =
     os_path_join (work_dir E) (''sub-'' @ sub @ ''_ses-'' @ ses @ ''_log.txt'')"

definition fw_process_subject_with ::
  "options_ctor \<Rightarrow> env \<Rightarrow> string \<Rightarrow> string \<Rightarrow> string \<Rightarrow> string \<Rightarrow> (string \<times> string) list
     \<Rightarrow> world \<Rightarrow> (exn + string list \<times> string list \<times> string list) \<times> world" where
  "fw_process_subject_with ctor E layout sub ses which_model config w =
     (let handler = next_handler w;
          w1 = addHandler handler (w\<lparr>next_handler := Suc handler\<rparr>);
          logs = []
      in (case try_block ctor E layout sub ses which_model config w1 of
            (raw_fnames, deriv_fnames, w2) \<Rightarrow>
      (let log_contents = getvalue handler w2;
           log_filename = log_filename_of E sub ses
       in (case open_w log_filename w2 of
             Inl e \<Rightarrow> (Inl e, w2)
           | Inr u \<Rightarrow>
      (let w3 = write_file log_filename log_contents w2;
           w4 = removeHandler handler w3;
           logs = logs @ [log_filename]
       in (case (raw_fnames, deriv_fnames) of
             (Some raw, Some deriv) \<Rightarrow> (Inr (raw, deriv, logs), w4)
           | _ \<Rightarrow> (Inl (UnboundLocalError
                         ''local variable raw_fnames referenced before assignment''),
                   w4)))))))"


definition fw_process_subject ::
  "env \<Rightarrow> string \<Rightarrow> string \<Rightarrow> string \<Rightarrow> string \<Rightarrow> (string \<times> string) list
     \<Rightarrow> world \<Rightarrow> (exn + string list \<times> string list \<times> string list) \<times> world" where
  "fw_process_subject = fw_process_subject_with TestOptions_call"

subsection \<open>main\<close>

text \<open>parse_config: the model is chosen by check_gpu.\<close>

definition select_model :: "bool \<Rightarrow> string" where
  "select_model is_gpu = (if is_gpu then ''GAMBAS'' else ''ResCNN'')"

record manifest =
  m_name :: string
  m_version :: string
  m_image :: string

definition os_remove :: "string \<Rightarrow> world \<Rightarrow> (exn + unit) \<times> world" where
  "os_remove p w =
     (if p \<in> set (map fst (files w))
      then (Inr (), w\<lparr>files := filter (\<lambda>(q, c). q \<noteq> p) (files w)\<rparr>)
      else (Inl (FileNotFoundError p), w))"

text \<open>The body of \<open>for file_path in raw_fnames\<close>: remove, and log the outcome.\<close>

definition delete_raw :: "string \<Rightarrow> world \<Rightarrow> world" where
  "delete_raw file_path w =
     (case os_remove file_path w of
        (Inr u, w1) \<Rightarrow> logprint (''Deleted raw file: '' @ file_path) w1
      | (Inl e, w1) \<Rightarrow> logprint (''Error deleting '' @ file_path @ '': '' @ exn_str e) w1)"

text \<open>
  \<open>session_container.add_analysis\<close>, \<open>analysis.update_info\<close> and the uploads: one analysis
  record on the session, with the files uploaded to it in order.
\<close>

definition publish ::
  "env \<Rightarrow> manifest \<Rightarrow> string \<Rightarrow> string list \<Rightarrow> string list \<Rightarrow> world \<Rightarrow> world" where
  "publish E man session_id deriv_fnames out_files w =
     (let gversion = m_version man;
          gname = m_name man;
          gdate = now E;
          a = \<lparr>an_session = session_id,
               an_label = gname @ ''/'' @ gversion @ '' '' @ gdate,
               an_status = (if deriv_fnames = [] then ''failed'' else ''success''),
               an_note = (if deriv_fnames = []
                          then ''No derived outputs, processing may have failed.'' else []),
               an_uploads = out_files\<rparr>;
          w1 = fold (\<lambda>file. logprint (''Uploading output file: '' @ basename file)) out_files w
      in w1\<lparr>analyses := analyses w1 @ [a]\<rparr>)"

text \<open>
  The body of the two loops of main for one subject and session. An exception of
  fw_process_subject is not caught: it ends main.
\<close>

definition main_session ::
  "env \<Rightarrow> manifest \<Rightarrow> string \<Rightarrow> string \<Rightarrow> (string \<times> string) list
     \<Rightarrow> string \<times> string \<times> string \<Rightarrow> world \<Rightarrow> (exn + unit) \<times> world" where
  "main_session E man layout which_model config s w =
     (case s of (sub, ses, session_id) \<Rightarrow>
      (case fw_process_subject E layout sub ses which_model config w of
         (Inl e, w1) \<Rightarrow> (Inl e, w1)
       | (Inr (raw_fnames, deriv_fnames, logs), w1) \<Rightarrow>
           (if raw_fnames = []
            then (Inr (), logprint (''[SKIPPING] No input files for '' @ sub @ ''/'' @ ses @ ''.'') w1)
            else if deriv_fnames = []
            then (Inr (),
                  fold delete_raw raw_fnames
                    (logprint (''[ERROR] Processing failed for '' @ sub @ ''/'' @ ses
                               @ '': No derived output.'') w1))
            else (let out_files = raw_fnames @ deriv_fnames @ logs
                  in (Inr (), publish E man session_id deriv_fnames out_files w1)))))"

fun main_sessions ::
  "env \<Rightarrow> manifest \<Rightarrow> string \<Rightarrow> string \<Rightarrow> (string \<times> string) list
     \<Rightarrow> (string \<times> string \<times> string) list \<Rightarrow> world \<Rightarrow> (exn + unit) \<times> world" where
  "main_sessions E man layout which_model config [] w = (Inr (), w)"
| "main_sessions E man layout which_model config (s # rest) w =
     (case main_session E man layout which_model config s w of
        (Inl e, w1) \<Rightarrow> (Inl e, w1)
      | (Inr u, w1) \<Rightarrow> main_sessions E man layout which_model config rest w1)"

text \<open>
  Step 4 of main, on what steps 1 to 3 produced: \<open>subses\<close> maps a subject to its
  sessions and their identifiers, in the order of the dictionaries.
\<close>

definition main ::
  "env \<Rightarrow> manifest \<Rightarrow> string \<Rightarrow> string \<Rightarrow> (string \<times> string) list
     \<Rightarrow> (string \<times> (string \<times> string) list) list \<Rightarrow> world \<Rightarrow> (exn + unit) \<times> world" where
  "main E man layout which_model config subses w =
     main_sessions E man layout which_model config
       (concat (map (\<lambda>(sub, sess). map (\<lambda>(ses, session_id). (sub, ses, session_id)) sess) subses)) w"

section \<open>Observations and example inputs\<close>

text \<open>The keys of the dictionary that download_subject returns, in insertion order.\<close>

definition resolved_labels :: "subject \<Rightarrow> string \<Rightarrow> bool \<Rightarrow> world \<Rightarrow> exn + string list" where
  "resolved_labels sub_container proj_dir dry_run w =
     (case fst (download_subject sub_container proj_dir dry_run w) of
        Inl e \<Rightarrow> Inl e
      | Inr (sub, sessions_out) \<Rightarrow> Inr (map fst sessions_out))"






definition empty_world :: world where
  "empty_world = \<lparr>files = [], dirs = [], unwritable = [], root_handlers = [], next_handler = 0,
                   download_calls = [], analyses = []\<rparr>"

definition plain_session :: "string \<Rightarrow> string \<Rightarrow> session" where
  "plain_session label sid = \<lparr>ses_label = label, ses_id = sid, acquisitions = []\<rparr>"



definition interfering :: subject where
  "interfering = \<lparr>sub_label = ''P-01'',
                   sessions = [plain_session ''X'' ''s1'', plain_session ''Xa'' ''s2'',
                               plain_session ''X'' ''s3'']\<rparr>"


definition file_axi :: file_entry where
  "file_axi = \<lparr>file_name = ''sub-01_T2w_AXI.nii.gz'', file_type = Some ''nifti'', fetch = Inr []\<rparr>"


definition world_with_axi :: world where
  "world_with_axi = empty_world\<lparr>files := [(''/src/V/sub-01_T2w_AXI.nii.gz'', [])]\<rparr>"



text \<open>
  Scenario A of the specification: the anatomical directory of subject 01, session 1
  holds one file; the layout query finds it as the only axial candidate; registration,
  model construction and inference succeed, inference returning the result path.
\<close>

definition scenario_dir :: string where
  "scenario_dir = ''/flywheel/v0/work/rawdata/sub-01/ses-1/anat''"

definition scenario_path :: string where
  "scenario_path = ''/flywheel/v0/work/rawdata/sub-01/ses-1/anat/sub-01_ses-1_T2w_axi.nii.gz''"

definition scenario_output :: string where
  "scenario_output =
     ''/flywheel/v0/work/derivatives/sub-01/ses-1/anat/sub-01_ses-1_T2w_axi_gambas.nii.gz''"

definition scenario_log :: string where
  "scenario_log = ''/flywheel/v0/work/sub-01_ses-1_log.txt''"

definition scenario_world :: world where
  "scenario_world = empty_world\<lparr>files := [(scenario_path, [])]\<rparr>"

definition scenario_env :: env where
  "scenario_env =
     \<lparr>parse_input_files = (\<lambda>layout sub ses. Inr [(''axi'', [scenario_path]), (''sag'', []), (''cor'', [])]),
      Registration = (\<lambda>image reference sub ses. Inr (Some 0)),
      create_model = (\<lambda>opt. Inr 0),
      model_setup = (\<lambda>model opt. Inr ()),
      inference = (\<lambda>model image opt. Inr (Some (opt_result_sr opt))),
      work_dir = ''/flywheel/v0/work'',
      now = ''20261104_08:11:00''\<rparr>"

text \<open>The same, with a layout query that raises, and with a registration that fails.\<close>

definition broken_layout_env :: env where
  "broken_layout_env =
     scenario_env\<lparr>parse_input_files := (\<lambda>layout sub ses. Inl (CollaboratorError ''no layout''))\<rparr>"


text \<open>
  An options constructor that accepts the \<open>image\<close> keyword and ignores it, and
  otherwise is the TestOptions of the sources.
\<close>

definition lenient_ctor :: options_ctor where
  "lenient_ctor kwargs w = TestOptions_call (filter (\<lambda>(k, v). k \<noteq> ''image'') kwargs) w"







text \<open>
  Observations of the loop of fw_process_subject. \<open>loop_start\<close> is the world in which
  the loop over the candidates starts; \<open>deriv_after\<close> and \<open>world_after\<close> are
  deriv_fnames and the world when the candidates \<open>pre\<close> have been gone through;
  \<open>options_for\<close> is what \<open>TestOptions(...).parse()\<close> gives for the candidate \<open>f\<close> that
  follows \<open>pre\<close>.
\<close>

definition loop_start :: "string \<Rightarrow> string \<Rightarrow> world \<Rightarrow> world" where
  "loop_start sub ses w =
     logprint (''Starting for '' @ sub @ ''-'' @ ses)
       (logging_info (''Processing subject '' @ sub @ '' session '' @ ses)
          (addHandler (next_handler w) (w\<lparr>next_handler := Suc (next_handler w)\<rparr>)))"

definition deriv_after ::
  "options_ctor \<Rightarrow> env \<Rightarrow> string \<Rightarrow> string \<Rightarrow> string \<Rightarrow> (string \<times> string) list
     \<Rightarrow> string list \<Rightarrow> world \<Rightarrow> string list" where
  "deriv_after ctor E sub ses which_model config pre w =
     fst (fold (process_file ctor E sub ses which_model config) pre ([], loop_start sub ses w))"

definition world_after ::
  "options_ctor \<Rightarrow> env \<Rightarrow> string \<Rightarrow> string \<Rightarrow> string \<Rightarrow> (string \<times> string) list
     \<Rightarrow> string list \<Rightarrow> world \<Rightarrow> world" where
  "world_after ctor E sub ses which_model config pre w =
     snd (fold (process_file ctor E sub ses which_model config) pre ([], loop_start sub ses w))"




definition scenario_manifest :: manifest where
  "scenario_manifest = \<lparr>m_name = ''gambas'', m_version = ''0.1.0'', m_image = ''gambas:0.1.0''\<rparr>"

definition scenario_files :: "(string \<times> string list) list" where
  "scenario_files = [(''axi'', [scenario_path]), (''sag'', []), (''cor'', [])]"

section \<open>Properties of utils/parser.py\<close>

subsection \<open>The inclusion filter\<close>




lemma exists_makedirs: "exists p w \<Longrightarrow> exists p (makedirs d w)"
  by (auto simp: exists_def makedirs_def)

lemma download_calls_makedirs [simp]: "download_calls (makedirs d w) = download_calls w"
  by (simp add: makedirs_def)

lemma download_calls_file_download:
  "download_calls (file_download file fpath w) = download_calls w @ [fpath]"
  by (simp add: file_download_def write_file_def Let_def split: sum.splits)

lemma exists_file_download:
  "fetch file = Inr c \<Longrightarrow> exists fpath (file_download file fpath w)"
  by (simp add: file_download_def write_file_def Let_def exists_def dom_update)

lemma download_calls_download_file:
  "download_calls (snd (download_file file my_dir dry_run w)) =
     (if do_download file \<and> \<not> dry_run
         \<and> \<not> exists (os_path_join my_dir (file_name file)) (makedirs my_dir w)
      then download_calls w @ [os_path_join my_dir (file_name file)]
      else download_calls w)"
  by (simp add: download_file_def Let_def download_calls_file_download)





subsection \<open>Files that are already there\<close>

text \<open>
  C6. For a file that passes the filter, if its target path exists, download_file does
  not call the file's download operation; a download is made only when the target path
  does not exist; and running download_file again after a download that succeeded calls
  no download.
\<close>

theorem download_file_skips_existing:
  "(do_download file \<and> exists (os_path_join my_dir (file_name file)) w
      \<longrightarrow> download_calls (snd (download_file file my_dir dry_run w)) = download_calls w) \<and>
   (download_calls (snd (download_file file my_dir dry_run w)) \<noteq> download_calls w
      \<longrightarrow> \<not> exists (os_path_join my_dir (file_name file)) w) \<and>
   (fetch file = Inr c \<longrightarrow>
      download_calls (snd (download_file file my_dir False (snd (download_file file my_dir False w))))
        = download_calls (snd (download_file file my_dir False w)))"
proof (intro conjI impI)
  assume "do_download file \<and> exists (os_path_join my_dir (file_name file)) w"
  then show "download_calls (snd (download_file file my_dir dry_run w)) = download_calls w"
    by (simp add: download_calls_download_file exists_makedirs)
next
  assume "download_calls (snd (download_file file my_dir dry_run w)) \<noteq> download_calls w"
  then show "\<not> exists (os_path_join my_dir (file_name file)) w"
    using exists_makedirs[of "os_path_join my_dir (file_name file)" w my_dir]
    by (auto simp: download_calls_download_file split: if_splits)
next
  assume f: "fetch file = Inr c"
  let ?p = "os_path_join my_dir (file_name file)"
  let ?w1 = "snd (download_file file my_dir False w)"
  have "do_download file \<Longrightarrow> exists ?p (makedirs my_dir ?w1)"
    using exists_file_download[OF f, of ?p "makedirs my_dir w"]
    by (auto simp: download_file_def Let_def intro: exists_makedirs)
  then show "download_calls (snd (download_file file my_dir False ?w1)) = download_calls ?w1"
    by (auto simp: download_calls_download_file)
qed

theorem download_file_skips_existing_witness:
  "(do_download file_axi \<and> exists (os_path_join ''/src/V'' (file_name file_axi)) world_with_axi) \<and>
   download_calls (snd (download_file file_axi ''/src/V'' False world_with_axi)) = [] \<and>
   download_calls (snd (download_file file_axi ''/src/V'' False empty_world)) \<noteq> download_calls empty_world \<and>
   \<not> exists (os_path_join ''/src/V'' (file_name file_axi)) empty_world \<and>
   fetch file_axi = Inr [] \<and>
   download_calls (snd (download_file file_axi ''/src/V'' False
                          (snd (download_file file_axi ''/src/V'' False empty_world))))
     = [''/src/V/sub-01_T2w_AXI.nii.gz'']"
proof -
  have h1: "do_download file_axi \<and> exists (os_path_join ''/src/V'' (file_name file_axi)) world_with_axi"
    by code_simp
  have h2: "download_calls (snd (download_file file_axi ''/src/V'' False empty_world)) \<noteq> download_calls empty_world"
    by code_simp
  have h3: "fetch file_axi = Inr []" by code_simp
  have e1: "download_calls world_with_axi = []" by code_simp
  have e2: "download_calls (snd (download_file file_axi ''/src/V'' False empty_world)) = [''/src/V/sub-01_T2w_AXI.nii.gz'']"
    by code_simp
  note t1 = download_file_skips_existing[of file_axi "''/src/V''" world_with_axi False "[]"]
  note t2 = download_file_skips_existing[of file_axi "''/src/V''" empty_world False "[]"]
  from t1 h1 have a: "download_calls (snd (download_file file_axi ''/src/V'' False world_with_axi)) = download_calls world_with_axi"
    by blast
  from t2 h2 have b: "\<not> exists (os_path_join ''/src/V'' (file_name file_axi)) empty_world"
    by blast
  from t2 h3 have c: "download_calls (snd (download_file file_axi ''/src/V'' False
                          (snd (download_file file_axi ''/src/V'' False empty_world))))
     = download_calls (snd (download_file file_axi ''/src/V'' False empty_world))"
    by blast
  show ?thesis using h1 h2 h3 a b c e1 e2 by simp
qed

subsection \<open>Session labels\<close>


























text \<open>
  The condition on the labels is needed: with the sanitised labels \<open>X\<close>, \<open>Xa\<close>, \<open>X\<close> the
  second \<open>X\<close> finds \<open>Xa\<close> taken and becomes \<open>Xb\<close>.
\<close>

lemma interfering_labels:
  "resolved_labels interfering ''/work/sourcedata/P'' False empty_world = Inr [''X'', ''Xa'', ''Xb'']"
  by code_simp






section \<open>Properties of options/test_options.py\<close>

lemma fnmatch_literal: "CHR ''*'' \<notin> set p \<Longrightarrow> fnmatch p n \<longleftrightarrow> n = p"
  by (induction p arbitrary: n) (auto split: list.splits)

lemma fnmatch_star:
  assumes "CHR ''*'' \<notin> set p"
  shows "fnmatch (CHR ''*'' # p) n \<longleftrightarrow> suffix p n"
proof
  assume "fnmatch (CHR ''*'' # p) n"
  then have "list_ex (\<lambda>k. fnmatch p (drop k n)) [0..<Suc (length n)]" by simp
  then obtain k where "fnmatch p (drop k n)" unfolding list_ex_iff by blast
  then have "drop k n = p" using assms by (simp add: fnmatch_literal)
  then show "suffix p n" by (metis suffix_drop)
next
  assume "suffix p n"
  then obtain q where n: "n = q @ p" by (auto simp: suffix_def)
  have "length q \<in> set [0..<Suc (length n)]" using n by simp
  moreover have "fnmatch p (drop (length q) n)" using n assms by (simp add: fnmatch_literal)
  ultimately have "list_ex (\<lambda>k. fnmatch p (drop k n)) [0..<Suc (length n)]"
    unfolding list_ex_iff by blast
  then show "fnmatch (CHR ''*'' # p) n" by simp
qed

lemma fnmatch_nii_gz: "fnmatch ''*.nii.gz'' n \<longleftrightarrow> suffix ''.nii.gz'' n"
  by (rule fnmatch_star) simp

lemma glob_nii_gz: "base \<in> set (glob in_dir ''*.nii.gz'' w) \<Longrightarrow> suffix ''.nii.gz'' base"
  unfolding glob_def using fnmatch_nii_gz by auto

lemma py_replace_Nil: "old \<noteq> [] \<Longrightarrow> py_replace old new [] = []"
  by (subst py_replace.simps) simp

lemma py_replace_prefix:
  "old \<noteq> [] \<Longrightarrow> py_replace old new (old @ rest) = new @ py_replace old new rest"
  by (subst py_replace.simps) simp

lemma py_replace_Cons:
  "old \<noteq> [] \<Longrightarrow> \<not> prefix old (c # cs) \<Longrightarrow> py_replace old new (c # cs) = c # py_replace old new cs"
  by (subst py_replace.simps) simp

lemma nii_gz_border:
  assumes "k < 7" "0 < k" "take k ''.nii.gz'' = drop (7 - k) ''.nii.gz''"
  shows False
proof -
  from assms(1,2) consider "k = 1" | "k = 2" | "k = 3" | "k = 4" | "k = 5" | "k = 6" by linarith
  then show False using assms(3) by cases simp_all
qed

lemma no_border:
  assumes "suffix ''.nii.gz'' (''.nii.gz'' @ rest)" "rest \<noteq> []"
  shows "suffix ''.nii.gz'' rest"
proof (rule ccontr)
  assume ns: "\<not> suffix ''.nii.gz'' rest"
  with assms(1) obtain xs' where x: "''.nii.gz'' = xs' @ rest" "suffix xs' ''.nii.gz''"
    unfolding suffix_append by blast
  have ne: "xs' \<noteq> []" using x(1) ns by auto
  have len: "length xs' + length rest = 7" using arg_cong[OF x(1), of length] by simp
  have t: "take (length xs') ''.nii.gz'' = xs'" by (subst x(1)) simp
  from x(2) obtain q where q: "''.nii.gz'' = q @ xs'" by (auto simp: suffix_def)
  have lq: "length q = 7 - length xs'" using arg_cong[OF q, of length] by simp
  have d: "drop (7 - length xs') ''.nii.gz'' = xs'" unfolding lq[symmetric] by (subst q) simp
  have "length xs' < 7" using len assms(2) by (cases rest) auto
  moreover have "0 < length xs'" using ne by simp
  ultimately show False using nii_gz_border[of "length xs'"] t d by simp
qed

lemma suffix_py_replace_gen:
  assumes ne: "old \<noteq> []"
    and nb: "\<And>rest. suffix old (old @ rest) \<Longrightarrow> rest \<noteq> [] \<Longrightarrow> suffix old rest"
  shows "suffix old s \<Longrightarrow> suffix new (py_replace old new s)"
proof (induction "length s" arbitrary: s rule: less_induct)
  case less
  show ?case
  proof (cases "prefix old s")
    case True
    then obtain rest where s: "s = old @ rest" by (auto simp: prefix_def)
    show ?thesis
    proof (cases "rest = []")
      case True
      have "py_replace old new (old @ []) = new @ py_replace old new []"
        by (rule py_replace_prefix[OF ne])
      then show ?thesis using True by (simp add: s py_replace_Nil[OF ne])
    next
      case False
      then have "suffix old rest" using less.prems s nb by blast
      moreover have "length rest < length s" using ne by (simp add: s)
      ultimately have "suffix new (py_replace old new rest)" by (rule less.hyps[rotated])
      then show ?thesis unfolding s by (simp add: py_replace_prefix[OF ne] suffix_appendI)
    qed
  next
    case False
    then obtain c cs where s: "s = c # cs" using less.prems ne by (cases s) auto
    have "suffix old cs"
      using less.prems False unfolding s suffix_Cons by auto
    moreover have "length cs < length s" by (simp add: s)
    ultimately have "suffix new (py_replace old new cs)" by (rule less.hyps[rotated])
    then show ?thesis using False unfolding s by (simp add: py_replace_Cons[OF ne] suffix_ConsI)
  qed
qed

lemma suffix_py_replace:
  "suffix ''.nii.gz'' s \<Longrightarrow> suffix new (py_replace ''.nii.gz'' new s)"
  by (rule suffix_py_replace_gen[OF _ no_border]) simp_all

lemma py_replace_once_gen:
  assumes ne: "old \<noteq> []"
  shows "\<not> sublist old (butlast (stem @ old)) \<Longrightarrow> py_replace old new (stem @ old) = stem @ new"
proof (induction stem)
  case Nil
  have "py_replace old new (old @ []) = new @ py_replace old new []"
    by (rule py_replace_prefix[OF ne])
  then show ?case by (simp add: py_replace_Nil[OF ne])
next
  case (Cons c cs)
  have bl: "butlast ((c # cs) @ old) = c # butlast (cs @ old)" using ne by simp
  have np: "\<not> prefix old (c # cs @ old)"
  proof
    assume "prefix old (c # cs @ old)"
    then obtain zs where z: "c # cs @ old = old @ zs" by (auto simp: prefix_def)
    have "zs \<noteq> []" using arg_cong[OF z, of length] by auto
    then have "butlast ((c # cs) @ old) = old @ butlast zs"
      using z by (metis append_Cons butlast_append)
    then show False using Cons.prems by (metis sublist_append_rightI)
  qed
  have "\<not> sublist old (butlast (cs @ old))"
    using Cons.prems unfolding bl by (simp add: sublist_Cons_right)
  then show ?case using Cons.IH np by (simp add: py_replace_Cons[OF ne])
qed

text \<open>
  C10. get_gambas_basename never raises its ValueError. When the directory has no entry
  matching \<open>*.nii.gz\<close> it raises FileNotFoundError; otherwise the first match ends with
  \<open>.nii.gz\<close> and the function returns that name with every \<open>.nii.gz\<close> replaced by the
  suffix of the model, a name that ends with this suffix; when \<open>.nii.gz\<close> occurs only at
  the end of the name, the result is the stem followed by the suffix.
\<close>

theorem get_gambas_basename_never_ValueError:
  "(glob in_dir ''*.nii.gz'' w = [] \<longrightarrow>
      get_gambas_basename in_dir which_model w
        = Inl (FileNotFoundError ''No NIfTI files found in the anat directory.'')) \<and>
   (glob in_dir ''*.nii.gz'' w \<noteq> [] \<longrightarrow>
      suffix ''.nii.gz'' (hd (glob in_dir ''*.nii.gz'' w)) \<and>
      get_gambas_basename in_dir which_model w
        = Inr (py_replace ''.nii.gz''
                 (if which_model = ''GAMBAS'' then ''_gambas.nii.gz'' else ''_ResCNN.nii.gz'')
                 (hd (glob in_dir ''*.nii.gz'' w))) \<and>
      suffix (if which_model = ''GAMBAS'' then ''_gambas.nii.gz'' else ''_ResCNN.nii.gz'')
        (py_replace ''.nii.gz''
           (if which_model = ''GAMBAS'' then ''_gambas.nii.gz'' else ''_ResCNN.nii.gz'')
           (hd (glob in_dir ''*.nii.gz'' w)))) \<and>
   (glob in_dir ''*.nii.gz'' w \<noteq> [] \<and> hd (glob in_dir ''*.nii.gz'' w) = stem @ ''.nii.gz''
      \<and> \<not> sublist ''.nii.gz'' (butlast (stem @ ''.nii.gz'')) \<longrightarrow>
      get_gambas_basename in_dir which_model w
        = Inr (stem @ (if which_model = ''GAMBAS'' then ''_gambas.nii.gz'' else ''_ResCNN.nii.gz''))) \<and>
   (\<forall>msg. get_gambas_basename in_dir which_model w \<noteq> Inl (ValueError msg))"
proof -
  let ?g = "glob in_dir ''*.nii.gz'' w"
  let ?sfx = "if which_model = ''GAMBAS'' then ''_gambas.nii.gz'' else ''_ResCNN.nii.gz''"
  have empty: "get_gambas_basename in_dir which_model w
        = Inl (FileNotFoundError ''No NIfTI files found in the anat directory.'')" if "?g = []"
    using that by (simp add: get_gambas_basename_def)
  have sfx: "suffix ''.nii.gz'' (hd ?g)" if "?g \<noteq> []"
    using that glob_nii_gz[of "hd ?g" in_dir w] by simp
  have val: "get_gambas_basename in_dir which_model w = Inr (py_replace ''.nii.gz'' ?sfx (hd ?g))"
    if "?g \<noteq> []"
    using that sfx by (simp add: get_gambas_basename_def Let_def)
  have ends: "suffix ?sfx (py_replace ''.nii.gz'' ?sfx (hd ?g))" if "?g \<noteq> []"
    using sfx[OF that] by (rule suffix_py_replace)
  have once: "get_gambas_basename in_dir which_model w = Inr (stem @ ?sfx)"
    if "?g \<noteq> []" "hd ?g = stem @ ''.nii.gz''" "\<not> sublist ''.nii.gz'' (butlast (stem @ ''.nii.gz''))"
    using val[OF that(1)] py_replace_once_gen[of "''.nii.gz''" stem ?sfx] that(2,3) by simp
  have nov: "get_gambas_basename in_dir which_model w \<noteq> Inl (ValueError msg)" for msg
    using empty val by (cases "?g = []") simp_all
  show ?thesis using empty sfx val ends once nov by blast
qed

theorem get_gambas_basename_never_ValueError_witness:
  "glob scenario_dir ''*.nii.gz'' empty_world = [] \<and>
   get_gambas_basename scenario_dir ''GAMBAS'' empty_world
     = Inl (FileNotFoundError ''No NIfTI files found in the anat directory.'') \<and>
   glob scenario_dir ''*.nii.gz'' scenario_world \<noteq> [] \<and>
   hd (glob scenario_dir ''*.nii.gz'' scenario_world) = ''sub-01_ses-1_T2w_axi'' @ ''.nii.gz'' \<and>
   \<not> sublist ''.nii.gz'' (butlast (''sub-01_ses-1_T2w_axi'' @ ''.nii.gz'')) \<and>
   get_gambas_basename scenario_dir ''GAMBAS'' scenario_world
     = Inr ''sub-01_ses-1_T2w_axi_gambas.nii.gz''"
proof -
  have h1: "glob scenario_dir ''*.nii.gz'' empty_world = []" by code_simp
  have h2: "glob scenario_dir ''*.nii.gz'' scenario_world \<noteq> [] \<and>
     hd (glob scenario_dir ''*.nii.gz'' scenario_world) = ''sub-01_ses-1_T2w_axi'' @ ''.nii.gz'' \<and>
     \<not> sublist ''.nii.gz'' (butlast (''sub-01_ses-1_T2w_axi'' @ ''.nii.gz''))"
    by code_simp
  note t1 = get_gambas_basename_never_ValueError[of scenario_dir empty_world "''GAMBAS''" "''sub-01_ses-1_T2w_axi''"]
  note t2 = get_gambas_basename_never_ValueError[of scenario_dir scenario_world "''GAMBAS''" "''sub-01_ses-1_T2w_axi''"]
  from t1 h1 have a: "get_gambas_basename scenario_dir ''GAMBAS'' empty_world
     = Inl (FileNotFoundError ''No NIfTI files found in the anat directory.'')" by blast
  from t2 h2 have b: "get_gambas_basename scenario_dir ''GAMBAS'' scenario_world
     = Inr (''sub-01_ses-1_T2w_axi'' @ (if ''GAMBAS'' = ''GAMBAS'' then ''_gambas.nii.gz'' else ''_ResCNN.nii.gz''))"
    by blast
  show ?thesis using h1 h2 a b by simp
qed

section \<open>Properties of run.py\<close>

subsection \<open>fw_process_subject on the scenarios\<close>

text \<open>
  C2, at a layout query that raises. The handler of the outer \<open>try\<close> logs the exception,
  the \<open>finally\<close> block runs, and the \<open>return\<close> statement reads raw_fnames, which was
  never assigned: fw_process_subject raises UnboundLocalError to main.
\<close>

theorem fw_process_subject_raises_UnboundLocalError:
  "fst (fw_process_subject broken_layout_env ''layout'' ''01'' ''1'' ''GAMBAS'' [] scenario_world)
     = Inl (UnboundLocalError ''local variable raw_fnames referenced before assignment'')"
  by code_simp

text \<open>
  C9, at the same input. The log file is written with the captured records and the
  handler is detached, but fw_process_subject returns no log list: it ends with an
  exception.
\<close>

theorem log_written_but_nothing_returned:
  "map_of (files (snd (fw_process_subject broken_layout_env ''layout'' ''01'' ''1'' ''GAMBAS'' []
                         scenario_world))) scenario_log
     = Some [''INFO - Processing subject 01 session 1'',
             ''ERROR - Error processing subject 01 session 1: no layout''] \<and>
   root_handlers (snd (fw_process_subject broken_layout_env ''layout'' ''01'' ''1'' ''GAMBAS'' []
                         scenario_world)) = [] \<and>
   (case fst (fw_process_subject broken_layout_env ''layout'' ''01'' ''1'' ''GAMBAS'' []
                scenario_world) of
      Inl e \<Rightarrow> True | Inr (raw_fnames, deriv_fnames, logs) \<Rightarrow> False)"
  by code_simp

text \<open>
  C3, on scenario A. The model is GAMBAS and the output basename would be
  \<open>sub-01_ses-1_T2w_axi_gambas.nii.gz\<close>, but the call of TestOptions passes the keyword
  \<open>image\<close>, which \<open>__init__\<close> does not have: the TypeError is caught by the handler of
  the inner \<open>try\<close> and deriv_fnames stays empty. With a constructor that accepts the
  keyword, the result path is appended twice, by the two \<open>if fname\<close> blocks of the
  loop body.
\<close>

theorem scenario_A_no_derivative:
  "select_model True = ''GAMBAS'' \<and>
   get_gambas_basename scenario_dir (select_model True) scenario_world
     = Inr ''sub-01_ses-1_T2w_axi_gambas.nii.gz'' \<and>
   fst (fw_process_subject scenario_env ''layout'' ''01'' ''1'' (select_model True) [] scenario_world)
     = Inr ([scenario_path], [], [scenario_log]) \<and>
   fst (fw_process_subject_with lenient_ctor scenario_env ''layout'' ''01'' ''1'' (select_model True) []
          scenario_world)
     = Inr ([scenario_path], [scenario_output, scenario_output], [scenario_log])"
  by code_simp

subsection \<open>A registration that fails\<close>









lemma open_w_emit [simp]: "open_w p (emit l m w) = open_w p w"
  by (simp add: open_w_def emit_def)

lemma open_w_logging [simp]:
  "open_w p (logging_info m w) = open_w p w"
  "open_w p (logging_warning m w) = open_w p w"
  "open_w p (logging_error m w) = open_w p w"
  "open_w p (logprint m w) = open_w p w"
  "open_w p (file_error f sub ses e w) = open_w p w"
  "open_w p (subject_error sub ses e w) = open_w p w"
  "open_w p (addHandler h w) = open_w p w"
  "open_w p (w\<lparr>next_handler := n\<rparr>) = open_w p w"
  by (simp_all add: logging_info_def logging_warning_def logging_error_def logprint_def
        file_error_def subject_error_def)
     (simp_all add: open_w_def addHandler_def)






lemma fold_pair:
  "fold (process_file ctor E sub ses which_model config) pre ([], loop_start sub ses w)
     = (deriv_after ctor E sub ses which_model config pre w,
        world_after ctor E sub ses which_model config pre w)"
  by (simp add: deriv_after_def world_after_def)











subsection \<open>main on a session without derivative\<close>

text \<open>
  C1, on scenario A, where fw_process_subject returns one raw file and no derivative.
  main deletes the raw file and goes on to the next session (\<open>continue\<close>): no analysis
  record is created and nothing is uploaded, although the code that builds the record
  has a branch for the status \<open>failed\<close>.
\<close>

theorem main_failed_session_no_analysis:
  "fst (fw_process_subject scenario_env ''layout'' ''01'' ''1'' ''GAMBAS'' [] scenario_world)
     = Inr ([scenario_path], [], [scenario_log]) \<and>
   exists scenario_path scenario_world \<and>
   fst (main scenario_env scenario_manifest ''layout'' ''GAMBAS'' [] [(''01'', [(''1'', ''session-id'')])]
          scenario_world) = Inr () \<and>
   \<not> exists scenario_path
       (snd (main scenario_env scenario_manifest ''layout'' ''GAMBAS'' []
               [(''01'', [(''1'', ''session-id'')])] scenario_world)) \<and>
   analyses (snd (main scenario_env scenario_manifest ''layout'' ''GAMBAS'' []
                    [(''01'', [(''1'', ''session-id'')])] scenario_world)) = []"
  by code_simp

end
